theory Spec2Isabelle
  imports Complex_Main "HOL-Library.Multiset"
begin

section \<open>Run-time values\<close>

text \<open>
  TypeScript's types are erased at run time and a cast (\<^verbatim>\<open>as ProductCategory\<close>) checks
  nothing, so a field filled from the generation service holds whatever JSON value the
  service sent. \<open>json\<close> is the value \<^verbatim>\<open>JSON.parse\<close> returns; \<open>json option\<close> adds
  \<^verbatim>\<open>undefined\<close> (\<open>None\<close>), the value of a property the object does not have.
\<close>

datatype json =
    JNull
  | JBool bool
  | JNum rat
  | JStr string
  | JArr "json list"
  | JObj "(string \<times> json) list"

text \<open>JavaScript's truthiness: \<^verbatim>\<open>undefined\<close>, \<^verbatim>\<open>null\<close>, \<^verbatim>\<open>false\<close>, \<^verbatim>\<open>0\<close> and \<^verbatim>\<open>""\<close> are falsy.\<close>

fun truthy :: "json option \<Rightarrow> bool" where
  "truthy None = False"
| "truthy (Some JNull) = False"
| "truthy (Some (JBool b)) = b"
| "truthy (Some (JNum n)) = (n \<noteq> 0)"
| "truthy (Some (JStr s)) = (s \<noteq> [])"
| "truthy (Some (JArr xs)) = True"
| "truthy (Some (JObj kvs)) = True"

text \<open>\<^verbatim>\<open>a || b\<close> with a defined right operand.\<close>

fun orElse :: "json option \<Rightarrow> json \<Rightarrow> json" where
  "orElse None d = d"
| "orElse (Some v) d = (if truthy (Some v) then v else d)"

text \<open>
  \<^verbatim>\<open>v.key\<close> on a value that is not \<^verbatim>\<open>null\<close>, for the keys the program reads (none of
  them is a member of a prototype): an object's own property, \<^verbatim>\<open>undefined\<close> otherwise.
\<close>

fun getProp :: "json \<Rightarrow> string \<Rightarrow> json option" where
  "getProp (JObj kvs) k = map_of kvs k"
| "getProp v k = None"

section \<open>The host: clock, dates and identifiers\<close>

text \<open>
  The program reads the clock (\<^verbatim>\<open>new Date()\<close>, \<^verbatim>\<open>Date.now()\<close>), parses date strings
  (\<^verbatim>\<open>new Date(s)\<close>), moves a date to local midnight (\<^verbatim>\<open>setHours(0, 0, 0, 0)\<close>), adds
  calendar days (\<^verbatim>\<open>setDate(getDate() + n)\<close>), prints dates (\<^verbatim>\<open>toISOString()\<close>) and draws
  identifiers (\<^verbatim>\<open>generateId()\<close>). None of this is code of the repository: it is the
  JavaScript engine. The model takes it as a parameter, a record of the host's answers.

  A time value is a number of milliseconds since the epoch, an \<open>int\<close>; an Invalid Date
  (time value NaN) is \<open>None\<close>. One call of a modelled function reads the clock as one
  instant. Time values and day counts are exact integers: the model covers the dates
  whose arithmetic a double carries out exactly. The sum of two statistics is rounded as
  a double rounds it (section Numbers below).

  \<open>printValue\<close> is the engine's conversion of a value to a string (\<^verbatim>\<open>String(v)\<close>), used
  when \<^verbatim>\<open>+\<close> concatenates.
\<close>

record host =
  now :: int
  parseDate :: "string \<Rightarrow> int option"
  startOfLocalDay :: "int \<Rightarrow> int"
  plusLocalDays :: "int \<Rightarrow> int \<Rightarrow> int"
  isoString :: "int \<Rightarrow> string"
  generateId :: "nat \<Rightarrow> string"
  loadedAt :: int
  printValue :: "json \<Rightarrow> string"

text \<open>\<^verbatim>\<open>1000 * 60 * 60 * 24\<close>, the milliseconds of one day.\<close>

definition msPerDay :: int where
  "msPerDay = 1000 * 60 * 60 * 24"

text \<open>\<^verbatim>\<open>d.setHours(0, 0, 0, 0)\<close> on a date that may be invalid.\<close>

definition setHoursMidnight :: "host \<Rightarrow> int option \<Rightarrow> int option" where
  "setHoursMidnight h d = map_option (startOfLocalDay h) d"

text \<open>\<^verbatim>\<open>Math.ceil(diffTime / (1000 * 60 * 60 * 24))\<close>.\<close>

definition ceilDays :: "int \<Rightarrow> int" where
  "ceilDays diffTime = \<lceil>real_of_int diffTime / real_of_int msPerDay\<rceil>"

text \<open>A fixed-offset time zone (no daylight saving), \<open>off\<close> milliseconds east of UTC.\<close>

definition fixedOffsetMidnight :: "int \<Rightarrow> int \<Rightarrow> int" where
  "fixedOffsetMidnight off t = t - (t + off) mod msPerDay"

section \<open>Types of the application\<close>

datatype ExpiryStatus = fresh | warning | critical

datatype ProductCategory =
  dairy | meat | vegetables | fruits | grains | beverages | condiments | frozen | bakery | other

text \<open>The string that stands for a category at run time.\<close>

fun categoryName :: "ProductCategory \<Rightarrow> string" where
  "categoryName dairy = ''dairy''"
| "categoryName meat = ''meat''"
| "categoryName vegetables = ''vegetables''"
| "categoryName fruits = ''fruits''"
| "categoryName grains = ''grains''"
| "categoryName beverages = ''beverages''"
| "categoryName condiments = ''condiments''"
| "categoryName frozen = ''frozen''"
| "categoryName bakery = ''bakery''"
| "categoryName other = ''other''"

definition allCategories :: "ProductCategory list" where
  "allCategories =
     [dairy, meat, vegetables, fruits, grains, beverages, condiments, frozen, bakery, other]"

text \<open>A run-time value is a \<^verbatim>\<open>ProductCategory\<close> when it is one of the ten strings.\<close>

fun isProductCategory :: "json \<Rightarrow> bool" where
  "isProductCategory (JStr s) = (s \<in> set (map categoryName allCategories))"
| "isProductCategory v = False"

text \<open>
  \<^verbatim>\<open>interface Product\<close>, with the fields the modelled functions read or write
  (\<^verbatim>\<open>quantity\<close> and \<^verbatim>\<open>imageUri\<close> are left out). \<^verbatim>\<open>name\<close>, \<^verbatim>\<open>unit\<close>, \<^verbatim>\<open>category\<close> and
  \<^verbatim>\<open>confidence\<close> hold run-time values.
\<close>

record Product =
  productId :: string
  productName :: json
  productUnit :: json
  category :: json
  expiryDate :: string
  addedAt :: string
  confidence :: json

section \<open>helpers.ts\<close>

text \<open>
  \<^verbatim>\<open>getDaysUntilExpiry\<close>: both dates at local midnight, the difference in days, rounded
  up. The result is a JavaScript number: an integer, or NaN (\<open>None\<close>) when the string
  is not a date.
\<close>

definition getDaysUntilExpiry :: "host \<Rightarrow> string \<Rightarrow> int option" where
  "getDaysUntilExpiry h expiryDateStr =
     (let today = setHoursMidnight h (Some (now h));
          expiry = setHoursMidnight h (parseDate h expiryDateStr)
      in case (expiry, today) of
           (Some e, Some t) \<Rightarrow> Some (ceilDays (e - t))
         | _ \<Rightarrow> None)"

text \<open>
  \<^verbatim>\<open>getExpiryStatus\<close> repeats the computation, then compares. A comparison with NaN is
  false, so an unparseable date falls through both tests.
\<close>

definition getExpiryStatus :: "host \<Rightarrow> string \<Rightarrow> ExpiryStatus" where
  "getExpiryStatus h expiryDateStr =
     (let today = setHoursMidnight h (Some (now h));
          expiry = setHoursMidnight h (parseDate h expiryDateStr);
          diffDays = (case (expiry, today) of
                        (Some e, Some t) \<Rightarrow> Some (ceilDays (e - t))
                      | _ \<Rightarrow> None)
      in case diffDays of
           None \<Rightarrow> fresh
         | Some n \<Rightarrow> if n \<le> 3 then critical else if n \<le> 7 then warning else fresh)"

text \<open>
  \<^verbatim>\<open>Array.prototype.sort(compareFn)\<close> is the engine's. ECMAScript (2019 and later)
  requires the sort to be stable and reads a NaN returned by the comparator as \<open>+0\<close>;
  the model is the stable insertion sort that such a comparator drives.
\<close>

definition compareResult :: "int option \<Rightarrow> int" where
  "compareResult v = (case v of None \<Rightarrow> 0 | Some n \<Rightarrow> n)"

fun sortInsert :: "('a \<Rightarrow> 'a \<Rightarrow> int option) \<Rightarrow> 'a \<Rightarrow> 'a list \<Rightarrow> 'a list" where
  "sortInsert cmp x [] = [x]"
| "sortInsert cmp x (y # ys) =
     (if compareResult (cmp x y) > 0 then y # sortInsert cmp x ys else x # y # ys)"

definition arraySort :: "('a \<Rightarrow> 'a \<Rightarrow> int option) \<Rightarrow> 'a list \<Rightarrow> 'a list" where
  "arraySort cmp xs = foldr (sortInsert cmp) xs []"

text \<open>\<^verbatim>\<open>daysA - daysB\<close> on numbers that may be NaN.\<close>

fun minusNumber :: "int option \<Rightarrow> int option \<Rightarrow> int option" where
  "minusNumber (Some a) (Some b) = Some (a - b)"
| "minusNumber a b = None"

definition sortProductsByExpiry :: "host \<Rightarrow> Product list \<Rightarrow> Product list" where
  "sortProductsByExpiry h products =
     arraySort (\<lambda>a b. minusNumber (getDaysUntilExpiry h (expiryDate a))
                                   (getDaysUntilExpiry h (expiryDate b))) products"

text \<open>
  The number of days as an integer, with 0 standing in for NaN: the key by which the
  library's \<open>sort_key\<close> is compared with the engine's sort below.
\<close>

definition daysOrZero :: "host \<Rightarrow> string \<Rightarrow> int" where
  "daysOrZero h d = (case getDaysUntilExpiry h d of None \<Rightarrow> 0 | Some n \<Rightarrow> n)"


text \<open>
  \<^verbatim>\<open>getExpiringProducts(products, days = 3)\<close>: an omitted second argument (\<open>None\<close>) is 3.
  \<^verbatim>\<open>daysUntil <= days && daysUntil >= 0\<close> is false on NaN.
\<close>

definition getExpiringProducts :: "host \<Rightarrow> Product list \<Rightarrow> int option \<Rightarrow> Product list" where
  "getExpiringProducts h products daysArg =
     (let days = (case daysArg of None \<Rightarrow> 3 | Some d \<Rightarrow> d)
      in filter (\<lambda>product.
           case getDaysUntilExpiry h (expiryDate product) of
             None \<Rightarrow> False
           | Some daysUntil \<Rightarrow> daysUntil \<le> days \<and> daysUntil \<ge> 0) products)"

definition calculateEstimatedSavings :: "host \<Rightarrow> Product list \<Rightarrow> int" where
  "calculateEstimatedSavings h products =
     int (length (getExpiringProducts h products None)) * 150"

text \<open>
  \<^verbatim>\<open>getDefaultExpiryDays\<close> reads a table by property key. For a key outside the table the
  read gives \<^verbatim>\<open>undefined\<close> (or a member of \<^verbatim>\<open>Object.prototype\<close>), never a number of days:
  \<open>None\<close>.
\<close>

definition getDefaultExpiryDays :: "string \<Rightarrow> int option" where
  "getDefaultExpiryDays key =
     map_of [(''dairy'', 7), (''meat'', 5), (''vegetables'', 7), (''fruits'', 7),
             (''grains'', 180), (''beverages'', 30), (''condiments'', 90), (''frozen'', 90),
             (''bakery'', 5), (''other'', 14)] key"

text \<open>
  \<^verbatim>\<open>addDaysToDate\<close>: \<^verbatim>\<open>setDate(getDate() + days)\<close>. With \<^verbatim>\<open>days\<close> not a number the sum is
  NaN and the date becomes invalid.
\<close>

definition addDaysToDate :: "host \<Rightarrow> int option \<Rightarrow> int option \<Rightarrow> int option" where
  "addDaysToDate h date days =
     (case (date, days) of
        (Some t, Some n) \<Rightarrow> Some (plusLocalDays h t n)
      | _ \<Rightarrow> None)"

section \<open>Numbers\<close>

text \<open>
  A JavaScript number is an IEEE 754 double. A finite double is a rational number
  \<open>m * 2 ^ e\<close> with \<open>\<bar>m\<bar> < 2 ^ 53\<close> and \<open>- 1074 \<le> e \<le> 971\<close>, and the sum of two doubles is
  their exact sum rounded to the nearest double, a tie going to the even significand; a
  result of magnitude \<open>2 ^ 1024\<close> or more is an infinity.

  \<open>roundHalfEven\<close> rounds to the nearest integer, ties to even.
\<close>

definition roundHalfEven :: "rat \<Rightarrow> int" where
  "roundHalfEven r =
     (let f = \<lfloor>r\<rfloor>; d = r - of_int f
      in if d < 1 / 2 then f
         else if 1 / 2 < d then f + 1
         else if even f then f else f + 1)"

text \<open>
  The spacing of the doubles around a magnitude \<open>a\<close>: the power of two \<open>q\<close> with
  \<open>2 ^ 52 * q \<le> a < 2 ^ 53 * q\<close>, kept between \<open>2 ^ - 1074\<close> (the subnormal numbers) and
  \<open>2 ^ 971\<close>. The search starts at 1 and doubles or halves; the first argument bounds
  the number of steps.
\<close>

fun quantumUp :: "nat \<Rightarrow> rat \<Rightarrow> rat \<Rightarrow> rat" where
  "quantumUp 0 a q = q"
| "quantumUp (Suc n) a q = (if 2 ^ 53 * q \<le> a then quantumUp n a (2 * q) else q)"

fun quantumDown :: "nat \<Rightarrow> rat \<Rightarrow> rat \<Rightarrow> rat" where
  "quantumDown 0 a q = q"
| "quantumDown (Suc n) a q = (if a < 2 ^ 52 * q then quantumDown n a (q / 2) else q)"

definition quantum :: "rat \<Rightarrow> rat" where
  "quantum a = (if 2 ^ 53 \<le> a then quantumUp 971 a 1 else quantumDown 1074 a 1)"

text \<open>The nearest double, before the test for overflow.\<close>

definition roundDouble :: "rat \<Rightarrow> rat" where
  "roundDouble x = (let q = quantum \<bar>x\<bar> in of_int (roundHalfEven (x / q)) * q)"

text \<open>
  A value in memory: a JSON value, or an infinity. (NaN does not arise from the sums
  below.) \<^verbatim>\<open>JSON.stringify\<close> writes an infinity as \<^verbatim>\<open>null\<close>.
\<close>

datatype jsValue = Json json | Infinity

fun stringified :: "jsValue \<Rightarrow> json" where
  "stringified (Json v) = v"
| "stringified Infinity = JNull"

text \<open>
  The number an operand of \<^verbatim>\<open>+\<close> stands for (\<^verbatim>\<open>null\<close> and \<^verbatim>\<open>false\<close> are 0, \<^verbatim>\<open>true\<close> is
  1); \<open>None\<close> for a string, an array or an object, whose primitive value is a string.
\<close>

fun toNumber :: "json \<Rightarrow> rat option" where
  "toNumber (JNum r) = Some r"
| "toNumber (JBool b) = Some (if b then 1 else 0)"
| "toNumber JNull = Some 0"
| "toNumber v = None"

text \<open>\<^verbatim>\<open>String(v)\<close>: a string is itself; the engine prints the rest.\<close>

fun toStringValue :: "host \<Rightarrow> json \<Rightarrow> string" where
  "toStringValue h (JStr s) = s"
| "toStringValue h v = printValue h v"

text \<open>
  \<^verbatim>\<open>a + b\<close> on JSON values: the rounded sum when both operands are numeric, the
  concatenation of their strings otherwise.
\<close>

definition jsPlus :: "host \<Rightarrow> json \<Rightarrow> json \<Rightarrow> jsValue" where
  "jsPlus h a b =
     (case (toNumber a, toNumber b) of
        (Some x, Some y) \<Rightarrow>
          (let r = roundDouble (x + y) in if \<bar>r\<bar> < 2 ^ 1024 then Json (JNum r) else Infinity)
      | _ \<Rightarrow> Json (JStr (toStringValue h a @ toStringValue h b)))"

text \<open>
  A rational is a finite double when rounding leaves it as it is and it does not
  overflow.
\<close>

definition isDouble :: "rat \<Rightarrow> bool" where
  "isDouble x \<longleftrightarrow> roundDouble x = x \<and> \<bar>x\<bar> < 2 ^ 1024"

section \<open>The storage layer\<close>

text \<open>
  \<^verbatim>\<open>interface Recipe\<close> (without \<^verbatim>\<open>imageUri\<close> and \<^verbatim>\<open>rating\<close>, which no modelled
  function touches). The fields copied from the generation service's answer hold
  run-time values; \<^verbatim>\<open>savedAt\<close> is optional.
\<close>

record Recipe =
  recipeId :: string
  title :: json
  description :: json
  cookTime :: json
  servings :: json
  difficulty :: json
  ingredients :: json
  instructions :: json
  usesExpiringProducts :: json
  generatedAt :: string
  savedAt :: "string option"

text \<open>
  \<^verbatim>\<open>interface UserStats\<close>. The five statistics are declared \<^verbatim>\<open>number\<close>; at run time a
  field holds the JSON value the last write left there.
\<close>

record UserStats =
  moneySaved :: json
  timeSaved :: json
  wastePrevented :: json
  recipesGenerated :: json
  productsScanned :: json
  lastUpdated :: string

text \<open>
  The key-value store, one item per storage key; \<open>None\<close> is a key with no item. The
  store is read and written as whole collections, and a collection of JSON values
  written with \<^verbatim>\<open>JSON.stringify\<close> is read back unchanged by \<^verbatim>\<open>JSON.parse\<close>. The store is
  taken to answer every read and write.
\<close>

record storage =
  savedRecipesItem :: "Recipe list option"
  recipeHistoryItem :: "Recipe list option"
  userStatsItem :: "UserStats option"

text \<open>\<^verbatim>\<open>defaultStats\<close>, built once when the module is loaded.\<close>

definition defaultStats :: "host \<Rightarrow> UserStats" where
  "defaultStats h =
     \<lparr>moneySaved = JNum 2450, timeSaved = JNum 180, wastePrevented = JNum (25 / 2),
      recipesGenerated = JNum 8, productsScanned = JNum 47,
      lastUpdated = isoString h (loadedAt h)\<rparr>"

text \<open>\<^verbatim>\<open>data ? JSON.parse(data) : []\<close>.\<close>

definition getSavedRecipes :: "storage \<Rightarrow> Recipe list" where
  "getSavedRecipes st = (case savedRecipesItem st of None \<Rightarrow> [] | Some rs \<Rightarrow> rs)"

text \<open>\<^verbatim>\<open>recipes.some((r) => r.id === recipe.id)\<close>, then \<^verbatim>\<open>unshift\<close> and write, or nothing.\<close>

definition saveRecipe :: "host \<Rightarrow> Recipe \<Rightarrow> storage \<Rightarrow> storage" where
  "saveRecipe h recipe st =
     (let recipes = getSavedRecipes st;
          exists = list_ex (\<lambda>r. recipeId r = recipeId recipe) recipes
      in if \<not> exists
         then st\<lparr>savedRecipesItem :=
                   Some (recipe\<lparr>savedAt := Some (isoString h (now h))\<rparr> # recipes)\<rparr>
         else st)"

definition removeSavedRecipe :: "string \<Rightarrow> storage \<Rightarrow> storage" where
  "removeSavedRecipe rid st =
     (let recipes = getSavedRecipes st;
          filtered = filter (\<lambda>r. recipeId r \<noteq> rid) recipes
      in st\<lparr>savedRecipesItem := Some filtered\<rparr>)"

definition getRecipeHistory :: "storage \<Rightarrow> Recipe list" where
  "getRecipeHistory st = (case recipeHistoryItem st of None \<Rightarrow> [] | Some rs \<Rightarrow> rs)"

text \<open>\<^verbatim>\<open>filter\<close>, \<^verbatim>\<open>unshift\<close>, \<^verbatim>\<open>slice(0, 50)\<close>, write.\<close>

definition addToRecipeHistory :: "Recipe \<Rightarrow> storage \<Rightarrow> storage" where
  "addToRecipeHistory recipe st =
     (let history = getRecipeHistory st;
          filtered = filter (\<lambda>r. recipeId r \<noteq> recipeId recipe) history;
          trimmed = take 50 (recipe # filtered)
      in st\<lparr>recipeHistoryItem := Some trimmed\<rparr>)"

text \<open>A sequence of \<^verbatim>\<open>addToRecipeHistory\<close> calls, the first recipe of the list first.\<close>

definition addAllToRecipeHistory :: "Recipe list \<Rightarrow> storage \<Rightarrow> storage" where
  "addAllToRecipeHistory recipes st = fold addToRecipeHistory recipes st"

definition getUserStats :: "host \<Rightarrow> storage \<Rightarrow> UserStats" where
  "getUserStats h st = (case userStatsItem st of None \<Rightarrow> defaultStats h | Some s \<Rightarrow> s)"

text \<open>
  \<^verbatim>\<open>Partial<UserStats>\<close>: every field may be absent. A field that is present holds a
  value computed in memory, not yet written.
\<close>

record PartialUserStats =
  moneySavedOpt :: "jsValue option"
  timeSavedOpt :: "jsValue option"
  wastePreventedOpt :: "jsValue option"
  recipesGeneratedOpt :: "jsValue option"
  productsScannedOpt :: "jsValue option"
  lastUpdatedOpt :: "string option"

definition orKeep :: "'a option \<Rightarrow> 'a \<Rightarrow> 'a" where
  "orKeep u old = (case u of None \<Rightarrow> old | Some v \<Rightarrow> v)"

text \<open>
  \<^verbatim>\<open>{ ...stats, ...updates, lastUpdated: new Date().toISOString() }\<close>, written with
  \<^verbatim>\<open>JSON.stringify\<close>; the record kept in the store is what \<^verbatim>\<open>JSON.parse\<close> reads back.
\<close>

definition updateUserStats :: "host \<Rightarrow> PartialUserStats \<Rightarrow> storage \<Rightarrow> storage" where
  "updateUserStats h updates st =
     (let stats = getUserStats h st;
          newStats =
            \<lparr>moneySaved = stringified (orKeep (moneySavedOpt updates) (Json (moneySaved stats))),
             timeSaved = stringified (orKeep (timeSavedOpt updates) (Json (timeSaved stats))),
             wastePrevented =
               stringified (orKeep (wastePreventedOpt updates) (Json (wastePrevented stats))),
             recipesGenerated =
               stringified (orKeep (recipesGeneratedOpt updates) (Json (recipesGenerated stats))),
             productsScanned =
               stringified (orKeep (productsScannedOpt updates) (Json (productsScanned stats))),
             lastUpdated = isoString h (now h)\<rparr>
      in st\<lparr>userStatsItem := Some newStats\<rparr>)"

text \<open>The five keys \<^verbatim>\<open>incrementStat\<close> accepts.\<close>

datatype StatKey = MoneySaved | TimeSaved | WastePrevented | RecipesGenerated | ProductsScanned

text \<open>\<^verbatim>\<open>stats[key]\<close>.\<close>

fun statOf :: "StatKey \<Rightarrow> UserStats \<Rightarrow> json" where
  "statOf MoneySaved s = moneySaved s"
| "statOf TimeSaved s = timeSaved s"
| "statOf WastePrevented s = wastePrevented s"
| "statOf RecipesGenerated s = recipesGenerated s"
| "statOf ProductsScanned s = productsScanned s"

definition noUpdates :: PartialUserStats where
  "noUpdates =
     \<lparr>moneySavedOpt = None, timeSavedOpt = None, wastePreventedOpt = None,
      recipesGeneratedOpt = None, productsScannedOpt = None, lastUpdatedOpt = None\<rparr>"

text \<open>\<^verbatim>\<open>{ [key]: v }\<close>.\<close>

fun onlyKey :: "StatKey \<Rightarrow> jsValue \<Rightarrow> PartialUserStats" where
  "onlyKey MoneySaved v = noUpdates\<lparr>moneySavedOpt := Some v\<rparr>"
| "onlyKey TimeSaved v = noUpdates\<lparr>timeSavedOpt := Some v\<rparr>"
| "onlyKey WastePrevented v = noUpdates\<lparr>wastePreventedOpt := Some v\<rparr>"
| "onlyKey RecipesGenerated v = noUpdates\<lparr>recipesGeneratedOpt := Some v\<rparr>"
| "onlyKey ProductsScanned v = noUpdates\<lparr>productsScannedOpt := Some v\<rparr>"

text \<open>
  \<^verbatim>\<open>incrementStat(key, amount = 1)\<close>: read the stats, then
  \<^verbatim>\<open>updateUserStats({ [key]: stats[key] + amount })\<close>, which reads them again. The
  declared type of \<^verbatim>\<open>amount\<close> is \<^verbatim>\<open>number\<close> and nothing checks it: the callers pass a
  count, a product of counts, or \<^verbatim>\<open>recipe.cookTime\<close>, a value taken from the service's
  answer. An omitted amount (\<open>None\<close>) is 1.
\<close>

definition incrementStat :: "host \<Rightarrow> StatKey \<Rightarrow> json option \<Rightarrow> storage \<Rightarrow> storage" where
  "incrementStat h key amountArg st =
     (let amount = (case amountArg of None \<Rightarrow> JNum 1 | Some a \<Rightarrow> a);
          stats = getUserStats h st
      in updateUserStats h (onlyKey key (jsPlus h (statOf key stats) amount)) st)"

section \<open>api.ts\<close>

text \<open>
  What a call of the generation service can throw. The first five are the
  \<^verbatim>\<open>throw new Error(...)\<close> of the source (missing key, a response that is not ok, no text,
  no \<^verbatim>\<open>{...}\<close> span) and the \<^verbatim>\<open>SyntaxError\<close> of \<^verbatim>\<open>JSON.parse\<close>; \<^verbatim>\<open>TypeError\<close> and
  \<^verbatim>\<open>RangeError\<close> are thrown by the engine while the answer is post-processed.
\<close>

datatype jsError =
    NoApiKey
  | ApiError
  | EmptyResponse
  | NoJsonFound
  | JsonSyntaxError
  | TypeError
  | RangeError

text \<open>
  The service is a black box. Its answer to a request, after the steps
  \<^verbatim>\<open>fetch\<close>, \<^verbatim>\<open>response.json()\<close>, \<^verbatim>\<open>match(/\{[\s\S]*\}/)\<close> and \<^verbatim>\<open>JSON.parse\<close>, is either the
  error one of them threw or the value \<^verbatim>\<open>parsed\<close>. The matched text starts with a brace,
  so \<^verbatim>\<open>parsed\<close> is an object.
\<close>

type_synonym reply = "jsError + json"

text \<open>
  \<^verbatim>\<open>(v || []).map(f)\<close>: a falsy \<^verbatim>\<open>v\<close> gives the empty array; a truthy \<^verbatim>\<open>v\<close> that is not an
  array has no \<^verbatim>\<open>map\<close>, and the call throws.
\<close>

fun itemsOf :: "json option \<Rightarrow> jsError + json list" where
  "itemsOf (Some (JArr xs)) = Inr xs"
| "itemsOf v = (if truthy v then Inl TypeError else Inr [])"

text \<open>
  \<^verbatim>\<open>xs.map(f)\<close> where \<^verbatim>\<open>f\<close> may throw: the first throw ends the call. \<open>k\<close> counts the
  identifiers drawn so far.
\<close>

fun mapThrowing :: "(nat \<Rightarrow> 'a \<Rightarrow> jsError + 'b) \<Rightarrow> nat \<Rightarrow> 'a list \<Rightarrow> jsError + 'b list" where
  "mapThrowing f k [] = Inr []"
| "mapThrowing f k (x # xs) =
     (case f k x of
        Inl e \<Rightarrow> Inl e
      | Inr y \<Rightarrow> (case mapThrowing f (Suc k) xs of
                   Inl e \<Rightarrow> Inl e
                 | Inr ys \<Rightarrow> Inr (y # ys)))"

text \<open>
  The property key a run-time value turns into when it indexes the table of
  \<^verbatim>\<open>getDefaultExpiryDays\<close>: the string itself; for an array of one element the key of
  that element. Every other value prints as text that is none of the ten category names
  (digits, \<^verbatim>\<open>true\<close>, \<^verbatim>\<open>false\<close>, a comma, \<^verbatim>\<open>[object Object]\<close>, the empty string): \<open>None\<close>.
\<close>

fun tableKey :: "json \<Rightarrow> string option" where
  "tableKey (JStr s) = Some s"
| "tableKey (JArr [v]) = tableKey v"
| "tableKey v = None"

text \<open>
  The Cyrillic literals of the source are written in Latin letters here; no modelled
  function looks inside them.
\<close>

definition unknownProductName :: string where
  "unknownProductName = ''Neizvestnyj produkt''"

definition defaultUnit :: string where
  "defaultUnit = ''sht''"

definition defaultRecipeTitle :: string where
  "defaultRecipeTitle = ''Novyj recept''"

definition defaultDishTitle :: string where
  "defaultDishTitle = ''Blyudo''"

text \<open>
  The function mapped over \<^verbatim>\<open>parsed.products\<close> in \<^verbatim>\<open>analyzeImageWithGemini\<close>. Reading a
  property of \<^verbatim>\<open>null\<close> throws a \<^verbatim>\<open>TypeError\<close>. \<^verbatim>\<open>toISOString()\<close> on an invalid date throws a
  \<^verbatim>\<open>RangeError\<close>.
\<close>

definition scannedProduct :: "host \<Rightarrow> nat \<Rightarrow> json \<Rightarrow> jsError + Product" where
  "scannedProduct h k p =
     (if p = JNull then Inl TypeError
      else
        let cat = orElse (getProp p ''category'') (JStr ''other'');
            expiry = addDaysToDate h (Some (now h))
                       (case tableKey cat of None \<Rightarrow> None | Some key \<Rightarrow> getDefaultExpiryDays key)
        in case expiry of
             None \<Rightarrow> Inl RangeError
           | Some t \<Rightarrow>
               Inr \<lparr>productId = generateId h k,
                    productName = orElse (getProp p ''name'') (JStr unknownProductName),
                    productUnit = orElse (getProp p ''unit'') (JStr defaultUnit),
                    category = cat,
                    expiryDate = isoString h t,
                    addedAt = isoString h (now h),
                    confidence = orElse (getProp p ''confidence'') (JNum (4 / 5))\<rparr>)"

text \<open>\<^verbatim>\<open>analyzeImageWithGemini\<close>; \<open>gemini\<close> is the service, from the image to its answer.\<close>

definition analyzeImageWithGemini ::
  "host \<Rightarrow> (string \<Rightarrow> reply) \<Rightarrow> string \<Rightarrow> string \<Rightarrow> jsError + Product list" where
  "analyzeImageWithGemini h gemini imageBase64 apiKey =
     (if apiKey = [] then Inl NoApiKey
      else case gemini imageBase64 of
             Inl e \<Rightarrow> Inl e
           | Inr parsed \<Rightarrow>
               (case itemsOf (getProp parsed ''products'') of
                  Inl e \<Rightarrow> Inl e
                | Inr ps \<Rightarrow> mapThrowing (scannedProduct h) 0 ps))"

text \<open>The optional \<^verbatim>\<open>preferences\<close> argument of \<^verbatim>\<open>generateRecipeWithGemini\<close>.\<close>

record Preferences =
  prefServings :: "rat option"
  prefMaxTime :: "rat option"
  prefDifficulty :: "string option"

text \<open>
  The parts of the prompt that vary: the product lines, the names after the request to
  use first what spoils soon (the line is absent when there is none), the servings
  line, and the optional lines for time and difficulty.
\<close>

record RecipePrompt =
  promptProducts :: "Product list"
  promptPriority :: "json list"
  promptServings :: rat
  promptMaxTime :: "rat option"
  promptDifficulty :: "string option"

text \<open>
  The constant \<^verbatim>\<open>expiringProducts\<close> of \<^verbatim>\<open>generateRecipeWithGemini\<close>:
  \<^verbatim>\<open>Math.ceil((new Date(p.expiryDate).getTime() - Date.now()) / (1000*60*60*24)) <= 3\<close>,
  false on NaN, then the names.
\<close>

definition expiringProducts :: "host \<Rightarrow> Product list \<Rightarrow> json list" where
  "expiringProducts h products =
     map productName
       (filter (\<lambda>p. case parseDate h (expiryDate p) of
                       None \<Rightarrow> False
                     | Some e \<Rightarrow> ceilDays (e - now h) \<le> 3) products)"

text \<open>\<^verbatim>\<open>preferences?.x ? ... : ...\<close>: absent, \<^verbatim>\<open>0\<close> and \<^verbatim>\<open>""\<close> are falsy.\<close>

definition truthyNumber :: "rat option \<Rightarrow> rat option" where
  "truthyNumber v = (case v of None \<Rightarrow> None | Some n \<Rightarrow> if n = 0 then None else Some n)"

definition truthyString :: "string option \<Rightarrow> string option" where
  "truthyString v = (case v of None \<Rightarrow> None | Some s \<Rightarrow> if s = [] then None else Some s)"

definition recipePrompt :: "host \<Rightarrow> Product list \<Rightarrow> Preferences option \<Rightarrow> RecipePrompt" where
  "recipePrompt h products preferences =
     \<lparr>promptProducts = products,
      promptPriority = expiringProducts h products,
      promptServings =
        (case truthyNumber (Option.bind preferences prefServings) of None \<Rightarrow> 4 | Some n \<Rightarrow> n),
      promptMaxTime = truthyNumber (Option.bind preferences prefMaxTime),
      promptDifficulty = truthyString (Option.bind preferences prefDifficulty)\<rparr>"

text \<open>\<^verbatim>\<open>generateRecipeWithGemini\<close>; \<open>gemini\<close> is the service, from the prompt to its answer.\<close>

definition generateRecipeWithGemini ::
  "host \<Rightarrow> (RecipePrompt \<Rightarrow> reply) \<Rightarrow> Product list \<Rightarrow> string \<Rightarrow> Preferences option
     \<Rightarrow> jsError + Recipe" where
  "generateRecipeWithGemini h gemini products apiKey preferences =
     (if apiKey = [] then Inl NoApiKey
      else case gemini (recipePrompt h products preferences) of
             Inl e \<Rightarrow> Inl e
           | Inr parsed \<Rightarrow>
               Inr \<lparr>recipeId = generateId h 0,
                    title = orElse (getProp parsed ''title'') (JStr defaultRecipeTitle),
                    description = orElse (getProp parsed ''description'') (JStr []),
                    cookTime = orElse (getProp parsed ''cookTime'') (JNum 30),
                    servings = orElse (getProp parsed ''servings'') (JNum 4),
                    difficulty = orElse (getProp parsed ''difficulty'') (JStr ''medium''),
                    ingredients = orElse (getProp parsed ''ingredients'') (JArr []),
                    instructions = orElse (getProp parsed ''instructions'') (JArr []),
                    usesExpiringProducts =
                      orElse (getProp parsed ''usesExpiringProducts'')
                        (JArr (expiringProducts h products)),
                    generatedAt = isoString h (now h),
                    savedAt = None\<rparr>)"

datatype Budget = economy | standard | premium

text \<open>\<^verbatim>\<open>budgetRanges\<close>: the band of cost per person, \<open>(min, max)\<close>.\<close>

fun budgetRanges :: "Budget \<Rightarrow> rat \<times> rat" where
  "budgetRanges economy = (650, 1100)"
| "budgetRanges standard = (1100, 1800)"
| "budgetRanges premium = (1800, 3000)"

definition targetCostPerPerson :: "Budget \<Rightarrow> rat" where
  "targetCostPerPerson budget = (fst (budgetRanges budget) + snd (budgetRanges budget)) / 2"

definition totalBudget :: "Budget \<Rightarrow> rat \<Rightarrow> rat" where
  "totalBudget budget guestCount = targetCostPerPerson budget * guestCount"

record GuestMenuPrompt =
  promptGuests :: rat
  promptCity :: string
  promptRange :: "rat \<times> rat"
  promptTotalBudget :: rat

text \<open>An entry of the result's \<^verbatim>\<open>shoppingList\<close>; \<^verbatim>\<open>name: item.name\<close> may be \<^verbatim>\<open>undefined\<close>.\<close>

record ShoppingEntry =
  entryId :: string
  entryName :: "json option"
  entryQuantity :: json
  entryUnit :: json
  entryCategory :: json
  entryChecked :: bool
  entryAddedAt :: string

text \<open>\<^verbatim>\<open>interface GuestMenuResult\<close>.\<close>

record GuestMenuResult =
  menuAppetizers :: "Recipe list"
  menuMains :: "Recipe list"
  menuDesserts :: "Recipe list"
  menuBeverages :: json
  menuShoppingList :: "ShoppingEntry list"
  totalCost :: json
  perPersonCost :: json

text \<open>The function mapped by \<^verbatim>\<open>processRecipes\<close>.\<close>

definition menuRecipe :: "host \<Rightarrow> rat \<Rightarrow> nat \<Rightarrow> json \<Rightarrow> jsError + Recipe" where
  "menuRecipe h guestCount k item =
     (if item = JNull then Inl TypeError
      else Inr \<lparr>recipeId = generateId h k,
                title = orElse (getProp item ''title'') (JStr defaultDishTitle),
                description = orElse (getProp item ''description'') (JStr []),
                cookTime = orElse (getProp item ''cookTime'') (JNum 30),
                servings = orElse (getProp item ''servings'') (JNum guestCount),
                difficulty = orElse (getProp item ''difficulty'') (JStr ''medium''),
                ingredients = orElse (getProp item ''ingredients'') (JArr []),
                instructions = orElse (getProp item ''instructions'') (JArr []),
                usesExpiringProducts = JArr [],
                generatedAt = isoString h (now h),
                savedAt = None\<rparr>)"

definition processRecipes ::
  "host \<Rightarrow> rat \<Rightarrow> nat \<Rightarrow> json option \<Rightarrow> jsError + Recipe list" where
  "processRecipes h guestCount k items =
     (case itemsOf items of
        Inl e \<Rightarrow> Inl e
      | Inr xs \<Rightarrow> mapThrowing (menuRecipe h guestCount) k xs)"

text \<open>The function mapped over \<^verbatim>\<open>parsed.shoppingList\<close>.\<close>

definition shoppingEntry :: "host \<Rightarrow> nat \<Rightarrow> json \<Rightarrow> jsError + ShoppingEntry" where
  "shoppingEntry h k item =
     (if item = JNull then Inl TypeError
      else Inr \<lparr>entryId = generateId h k,
                entryName = getProp item ''name'',
                entryQuantity = orElse (getProp item ''quantity'') (JStr ''1''),
                entryUnit = orElse (getProp item ''unit'') (JStr defaultUnit),
                entryCategory = orElse (getProp item ''category'') (JStr ''other''),
                entryChecked = False,
                entryAddedAt = isoString h (now h)\<rparr>)"

text \<open>
  \<^verbatim>\<open>generateGuestMenuWithGemini\<close>: the shopping list is built first, then the object
  literal is evaluated field by field.
\<close>

definition generateGuestMenuWithGemini ::
  "host \<Rightarrow> (GuestMenuPrompt \<Rightarrow> reply) \<Rightarrow> rat \<Rightarrow> Budget \<Rightarrow> string \<Rightarrow> string
     \<Rightarrow> jsError + GuestMenuResult" where
  "generateGuestMenuWithGemini h gemini guestCount budget city apiKey =
     (if apiKey = [] then Inl NoApiKey
      else
        case gemini \<lparr>promptGuests = guestCount, promptCity = city,
                     promptRange = budgetRanges budget,
                     promptTotalBudget = totalBudget budget guestCount\<rparr> of
          Inl e \<Rightarrow> Inl e
        | Inr parsed \<Rightarrow>
            (case itemsOf (getProp parsed ''shoppingList'') of
               Inl e \<Rightarrow> Inl e
             | Inr raw \<Rightarrow>
            (case mapThrowing (shoppingEntry h) 0 raw of
               Inl e \<Rightarrow> Inl e
             | Inr shopping \<Rightarrow>
            (case processRecipes h guestCount (length shopping)
                    (getProp parsed ''appetizers'') of
               Inl e \<Rightarrow> Inl e
             | Inr apps \<Rightarrow>
            (case processRecipes h guestCount (length shopping + length apps)
                    (getProp parsed ''mains'') of
               Inl e \<Rightarrow> Inl e
             | Inr ms \<Rightarrow>
            (case processRecipes h guestCount (length shopping + length apps + length ms)
                    (getProp parsed ''desserts'') of
               Inl e \<Rightarrow> Inl e
             | Inr ds \<Rightarrow>
                 Inr \<lparr>menuAppetizers = apps,
                      menuMains = ms,
                      menuDesserts = ds,
                      menuBeverages = orElse (getProp parsed ''beverages'') (JArr []),
                      menuShoppingList = shopping,
                      totalCost =
                        orElse (getProp parsed ''totalCost'') (JNum (totalBudget budget guestCount)),
                      perPersonCost =
                        orElse (getProp parsed ''perPersonCost'')
                          (JNum (targetCostPerPerson budget))\<rparr>))))))"

section \<open>Example data\<close>

text \<open>
  A host in the UTC time zone at 2024-01-01 10:00, which knows four date strings: the day
  before, and two, five and ten days ahead, each at 08:00. It prints the current instant
  and the number 180.
\<close>

definition exampleHost :: host where
  "exampleHost =
     \<lparr>now = 1704103200000,
      parseDate = map_of [(''2023-12-31T08:00:00.000Z'', 1704009600000),
                          (''2024-01-03T08:00:00.000Z'', 1704268800000),
                          (''2024-01-06T08:00:00.000Z'', 1704528000000),
                          (''2024-01-11T08:00:00.000Z'', 1704960000000)],
      startOfLocalDay = fixedOffsetMidnight 0,
      plusLocalDays = (\<lambda>t n. t + n * msPerDay),
      isoString = (\<lambda>t. if t = 1704103200000 then ''2024-01-01T10:00:00.000Z''
                         else ''another instant''),
      generateId = (\<lambda>k. replicate (Suc k) CHR ''i''),
      loadedAt = 1704103200000,
      printValue = (\<lambda>v. if v = JNum 180 then ''180'' else ''another value'')\<rparr>"

definition exampleProduct :: "string \<Rightarrow> string \<Rightarrow> Product" where
  "exampleProduct name expiry =
     \<lparr>productId = name, productName = JStr name, productUnit = JStr ''l'',
      category = JStr ''dairy'', expiryDate = expiry,
      addedAt = ''2024-01-01T10:00:00.000Z'', confidence = JNum (4 / 5)\<rparr>"

definition exampleRecipe :: "string \<Rightarrow> string \<Rightarrow> Recipe" where
  "exampleRecipe rid name =
     \<lparr>recipeId = rid, title = JStr name, description = JStr [], cookTime = JNum 30,
      servings = JNum 4, difficulty = JStr ''medium'', ingredients = JArr [],
      instructions = JArr [], usesExpiringProducts = JArr [],
      generatedAt = ''2024-01-01T10:00:00.000Z'', savedAt = None\<rparr>"

definition emptyStorage :: storage where
  "emptyStorage = \<lparr>savedRecipesItem = None, recipeHistoryItem = None, userStatsItem = None\<rparr>"

text \<open>A generation service that answers every request with the same parsed value.\<close>

definition answering :: "json \<Rightarrow> 'a \<Rightarrow> reply" where
  "answering v request = Inr v"


section \<open>Reachable stores\<close>

text \<open>
  The stores the program can build: it starts from the empty store (\<^verbatim>\<open>clearAllData\<close>
  returns to it), and the functions below are the only writers of the three items.
\<close>

inductive reachable :: "storage \<Rightarrow> bool" where
  reachable_empty: "reachable emptyStorage"
| reachable_addToRecipeHistory: "reachable st \<Longrightarrow> reachable (addToRecipeHistory r st)"
| reachable_saveRecipe: "reachable st \<Longrightarrow> reachable (saveRecipe h r st)"
| reachable_removeSavedRecipe: "reachable st \<Longrightarrow> reachable (removeSavedRecipe i st)"
| reachable_updateUserStats: "reachable st \<Longrightarrow> reachable (updateUserStats h u st)"
| reachable_incrementStat: "reachable st \<Longrightarrow> reachable (incrementStat h key amount st)"

section \<open>Day arithmetic\<close>

lemma ceilDays_div: "ceilDays t = - ((- t) div msPerDay)"
proof -
  have "\<lfloor>real_of_int (- t) / real_of_int msPerDay\<rfloor> = (- t) div msPerDay"
    by (rule floor_divide_of_int_eq)
  then show ?thesis
    unfolding ceilDays_def ceiling_def by simp
qed

lemma ceilDays_le: "ceilDays t \<le> k \<longleftrightarrow> t \<le> k * msPerDay"
proof -
  have pos: "0 < real_of_int msPerDay" by (simp add: msPerDay_def)
  have "ceilDays t \<le> k \<longleftrightarrow> real_of_int t / real_of_int msPerDay \<le> real_of_int k"
    unfolding ceilDays_def by (rule ceiling_le_iff)
  also have "\<dots> \<longleftrightarrow> real_of_int t \<le> real_of_int k * real_of_int msPerDay"
    using pos by (simp add: pos_divide_le_eq)
  also have "\<dots> \<longleftrightarrow> real_of_int t \<le> real_of_int (k * msPerDay)" by simp
  also have "\<dots> \<longleftrightarrow> t \<le> k * msPerDay" by (rule of_int_le_iff)
  finally show ?thesis .
qed

lemmas exampleHost_eval =
  getDaysUntilExpiry_def getExpiryStatus_def exampleHost_def setHoursMidnight_def
  ceilDays_div fixedOffsetMidnight_def msPerDay_def

section \<open>The expiry classifier\<close>

text \<open>
  Claim C1. For every expiry date \<open>d\<close> (a string the host parses as a date),
  \<open>getDaysUntilExpiry\<close> returns the integer \<open>n\<close> that is the ceiling of the difference, in
  days, between \<open>d\<close> moved to local midnight and the current date moved to local
  midnight, and \<open>getExpiryStatus\<close>, read at the same instant, returns \<open>critical\<close> exactly
  when \<open>n \<le> 3\<close>, \<open>warning\<close> exactly when \<open>4 \<le> n \<le> 7\<close>, and \<open>fresh\<close> exactly when \<open>n \<ge> 8\<close>.
\<close>

theorem getExpiryStatus_thresholds:
  assumes "parseDate h d = Some e"
  shows "\<exists>n. getDaysUntilExpiry h d = Some n
           \<and> n = \<lceil>real_of_int (startOfLocalDay h e - startOfLocalDay h (now h)) / 86400000\<rceil>
           \<and> (getExpiryStatus h d = critical \<longleftrightarrow> n \<le> 3)
           \<and> (getExpiryStatus h d = warning \<longleftrightarrow> 4 \<le> n \<and> n \<le> 7)
           \<and> (getExpiryStatus h d = fresh \<longleftrightarrow> 8 \<le> n)"
  using assms
  by (simp add: getDaysUntilExpiry_def getExpiryStatus_def setHoursMidnight_def Let_def
      ceilDays_def msPerDay_def)

theorem getExpiryStatus_thresholds_witness:
  "parseDate exampleHost ''2024-01-06T08:00:00.000Z'' = Some 1704528000000
   \<and> getDaysUntilExpiry exampleHost ''2024-01-06T08:00:00.000Z'' = Some 5
   \<and> getExpiryStatus exampleHost ''2024-01-06T08:00:00.000Z'' = warning"
proof -
  have p: "parseDate exampleHost ''2024-01-06T08:00:00.000Z'' = Some 1704528000000"
    by (simp add: exampleHost_def)
  have d: "getDaysUntilExpiry exampleHost ''2024-01-06T08:00:00.000Z'' = Some 5"
    by (simp add: exampleHost_eval)
  from getExpiryStatus_thresholds [OF p] d p show ?thesis by auto
qed

text \<open>
  A string that is not a date gives NaN days, and NaN fails both comparisons of
  \<open>getExpiryStatus\<close>.
\<close>

lemma getExpiryStatus_unparseable:
  "parseDate h d = None \<Longrightarrow> getDaysUntilExpiry h d = None \<and> getExpiryStatus h d = fresh"
  by (simp add: getDaysUntilExpiry_def getExpiryStatus_def setHoursMidnight_def)


lemma getDaysUntilExpiry_Some:
  "parseDate h d \<noteq> None \<Longrightarrow> \<exists>n. getDaysUntilExpiry h d = Some n"
  by (auto simp: getDaysUntilExpiry_def setHoursMidnight_def Let_def)

section \<open>The inventory ranker\<close>

text \<open>
  Claim C3. Every product returned by \<open>getExpiringProducts(products, 3)\<close> is one of the
  given products and has a number of days until expiry \<open>n\<close> with \<open>0 \<le> n \<le> 3\<close>: no
  product that has already expired (\<open>n < 0\<close>), none with \<open>n > 3\<close> and none whose date is
  not a number of days at all is selected.
\<close>

theorem getExpiringProducts_within:
  assumes "p \<in> set (getExpiringProducts h products (Some 3))"
  shows "p \<in> set products
         \<and> (\<exists>n. getDaysUntilExpiry h (expiryDate p) = Some n \<and> 0 \<le> n \<and> n \<le> 3)"
  using assms
  by (auto simp: getExpiringProducts_def split: option.splits)

theorem getExpiringProducts_within_witness:
  "exampleProduct ''Milk'' ''2024-01-03T08:00:00.000Z''
     \<in> set (getExpiringProducts exampleHost
          [exampleProduct ''Milk'' ''2024-01-03T08:00:00.000Z'',
           exampleProduct ''Old'' ''2023-12-31T08:00:00.000Z'',
           exampleProduct ''Kefir'' ''2024-01-06T08:00:00.000Z''] (Some 3))
   \<and> getDaysUntilExpiry exampleHost ''2024-01-03T08:00:00.000Z'' = Some 2"
proof -
  have sel: "exampleProduct ''Milk'' ''2024-01-03T08:00:00.000Z''
     \<in> set (getExpiringProducts exampleHost
          [exampleProduct ''Milk'' ''2024-01-03T08:00:00.000Z'',
           exampleProduct ''Old'' ''2023-12-31T08:00:00.000Z'',
           exampleProduct ''Kefir'' ''2024-01-06T08:00:00.000Z''] (Some 3))"
    by (simp add: getExpiringProducts_def exampleProduct_def exampleHost_eval)
  have "getDaysUntilExpiry exampleHost ''2024-01-03T08:00:00.000Z'' = Some 2"
    by (simp add: exampleHost_eval)
  with getExpiringProducts_within [OF sel] sel show ?thesis by simp
qed

text \<open>The omitted second argument is 3, and expired products are left out.\<close>

lemma getExpiringProducts_default:
  "getExpiringProducts h products None = getExpiringProducts h products (Some 3)"
  by (simp add: getExpiringProducts_def)

lemma getExpiringProducts_example:
  "getExpiringProducts exampleHost
     [exampleProduct ''Milk'' ''2024-01-03T08:00:00.000Z'',
      exampleProduct ''Old'' ''2023-12-31T08:00:00.000Z'',
      exampleProduct ''Kefir'' ''2024-01-06T08:00:00.000Z''] (Some 3)
   = [exampleProduct ''Milk'' ''2024-01-03T08:00:00.000Z'']"
  by (simp add: getExpiringProducts_def exampleProduct_def exampleHost_eval)

text \<open>
  On products whose dates all parse, the comparator \<^verbatim>\<open>daysA - daysB\<close> is the order of
  the day numbers, and the engine's stable sort is \<open>sort_key\<close>.
\<close>

lemma sortInsert_insort_key:
  assumes "\<forall>p \<in> set (x # ys). getDaysUntilExpiry h (expiryDate p) \<noteq> None"
  shows "sortInsert (\<lambda>a b. minusNumber (getDaysUntilExpiry h (expiryDate a))
                                       (getDaysUntilExpiry h (expiryDate b))) x ys
         = insort_key (\<lambda>p. daysOrZero h (expiryDate p)) x ys"
  using assms
  by (induction ys) (auto simp: compareResult_def daysOrZero_def)

lemma sortProductsByExpiry_sort_key:
  assumes "\<forall>p \<in> set ps. getDaysUntilExpiry h (expiryDate p) \<noteq> None"
  shows "sortProductsByExpiry h ps = sort_key (\<lambda>p. daysOrZero h (expiryDate p)) ps"
  using assms
proof (induction ps)
  case Nil
  then show ?case by (simp add: sortProductsByExpiry_def arraySort_def)
next
  case (Cons p ps)
  then have IH: "sortProductsByExpiry h ps = sort_key (\<lambda>p. daysOrZero h (expiryDate p)) ps"
    by simp
  have "\<forall>q \<in> set (p # sort_key (\<lambda>p. daysOrZero h (expiryDate p)) ps).
          getDaysUntilExpiry h (expiryDate q) \<noteq> None"
    using Cons.prems by simp
  from sortInsert_insort_key [OF this] IH show ?case
    by (simp add: sortProductsByExpiry_def arraySort_def)
qed

text \<open>
  Claim C9. On products whose expiry dates all parse, \<open>sortProductsByExpiry\<close> returns a
  rearrangement of its input that is ascending in the number of days until expiry, and
  it is stable: the products with a given number of days, and so the products with a
  given expiry date, come out in the order in which they went in.
\<close>

theorem sortProductsByExpiry_stable:
  assumes "\<forall>p \<in> set products. parseDate h (expiryDate p) \<noteq> None"
  shows "mset (sortProductsByExpiry h products) = mset products
       \<and> sorted_wrt (\<lambda>a b. \<exists>m n. getDaysUntilExpiry h (expiryDate a) = Some m
                              \<and> getDaysUntilExpiry h (expiryDate b) = Some n \<and> m \<le> n)
           (sortProductsByExpiry h products)
       \<and> (\<forall>k. filter (\<lambda>p. getDaysUntilExpiry h (expiryDate p) = Some k)
                 (sortProductsByExpiry h products)
              = filter (\<lambda>p. getDaysUntilExpiry h (expiryDate p) = Some k) products)
       \<and> (\<forall>d. filter (\<lambda>p. expiryDate p = d) (sortProductsByExpiry h products)
              = filter (\<lambda>p. expiryDate p = d) products)"
proof -
  let ?days = "\<lambda>p. getDaysUntilExpiry h (expiryDate p)"
  let ?key = "\<lambda>p. daysOrZero h (expiryDate p)"
  let ?out = "sortProductsByExpiry h products"
  have some: "\<forall>p \<in> set products. ?days p = Some (?key p)"
  proof
    fix p assume "p \<in> set products"
    with assms have "parseDate h (expiryDate p) \<noteq> None" by simp
    then obtain n where "?days p = Some n" using getDaysUntilExpiry_Some by blast
    then show "?days p = Some (?key p)" by (simp add: daysOrZero_def)
  qed
  then have eq: "?out = sort_key ?key products"
    by (intro sortProductsByExpiry_sort_key) simp
  have perm: "mset ?out = mset products" by (simp add: eq)
  have "sorted (map ?key ?out)" by (simp add: eq)
  then have "sorted_wrt (\<lambda>a b. ?key a \<le> ?key b) ?out"
    by (simp add: sorted_wrt_map)
  moreover have "set ?out = set products" by (simp add: eq)
  ultimately have ordered:
    "sorted_wrt (\<lambda>a b. \<exists>m n. ?days a = Some m \<and> ?days b = Some n \<and> m \<le> n) ?out"
    using some by (auto intro: sorted_wrt_mono_rel [rotated])
  have stable: "filter (\<lambda>p. ?days p = Some k) ?out = filter (\<lambda>p. ?days p = Some k) products"
    for k
  proof -
    have "filter (\<lambda>p. ?days p = Some k) xs = filter (\<lambda>p. ?key p = k) xs"
      if "set xs = set products" for xs
      using that some by (intro filter_cong) auto
    from this [of ?out] this [of products] show ?thesis
      by (simp add: eq sort_key_stable)
  qed
  have same: "filter (\<lambda>p. expiryDate p = d) ?out = filter (\<lambda>p. expiryDate p = d) products"
    for d
  proof -
    have "filter (\<lambda>p. expiryDate p = d) xs
          = filter (\<lambda>p. expiryDate p = d) (filter (\<lambda>p. ?key p = daysOrZero h d) xs)" for xs
      by (induction xs) auto
    from this [of ?out] this [of products] show ?thesis
      by (simp add: eq sort_key_stable)
  qed
  from perm ordered stable same show ?thesis by blast
qed

theorem sortProductsByExpiry_stable_witness:
  "parseDate exampleHost ''2024-01-06T08:00:00.000Z'' = Some 1704528000000
   \<and> parseDate exampleHost ''2024-01-03T08:00:00.000Z'' = Some 1704268800000
   \<and> filter (\<lambda>p. expiryDate p = ''2024-01-03T08:00:00.000Z'')
        (sortProductsByExpiry exampleHost
          [exampleProduct ''Kefir'' ''2024-01-06T08:00:00.000Z'',
           exampleProduct ''Milk'' ''2024-01-03T08:00:00.000Z'',
           exampleProduct ''Bread'' ''2024-01-03T08:00:00.000Z''])
      = [exampleProduct ''Milk'' ''2024-01-03T08:00:00.000Z'',
         exampleProduct ''Bread'' ''2024-01-03T08:00:00.000Z'']"
proof -
  let ?ps = "[exampleProduct ''Kefir'' ''2024-01-06T08:00:00.000Z'',
              exampleProduct ''Milk'' ''2024-01-03T08:00:00.000Z'',
              exampleProduct ''Bread'' ''2024-01-03T08:00:00.000Z'']"
  have hyp: "\<forall>p \<in> set ?ps. parseDate exampleHost (expiryDate p) \<noteq> None"
    by (simp add: exampleProduct_def exampleHost_def)
  from sortProductsByExpiry_stable [OF hyp]
  have "filter (\<lambda>p. expiryDate p = ''2024-01-03T08:00:00.000Z'')
          (sortProductsByExpiry exampleHost ?ps)
        = filter (\<lambda>p. expiryDate p = ''2024-01-03T08:00:00.000Z'') ?ps"
    by blast
  also have "\<dots> = [exampleProduct ''Milk'' ''2024-01-03T08:00:00.000Z'',
                   exampleProduct ''Bread'' ''2024-01-03T08:00:00.000Z'']"
    by (simp add: exampleProduct_def)
  finally show ?thesis by (simp add: exampleHost_def)
qed

text \<open>The whole output on the example: the two products due in two days first, in input order.\<close>

lemma sortProductsByExpiry_example:
  "sortProductsByExpiry exampleHost
     [exampleProduct ''Kefir'' ''2024-01-06T08:00:00.000Z'',
      exampleProduct ''Milk'' ''2024-01-03T08:00:00.000Z'',
      exampleProduct ''Bread'' ''2024-01-03T08:00:00.000Z'']
   = [exampleProduct ''Milk'' ''2024-01-03T08:00:00.000Z'',
      exampleProduct ''Bread'' ''2024-01-03T08:00:00.000Z'',
      exampleProduct ''Kefir'' ''2024-01-06T08:00:00.000Z'']"
  by (simp add: sortProductsByExpiry_def arraySort_def compareResult_def exampleProduct_def
      exampleHost_eval)

section \<open>The persistence merge layer\<close>

lemma getRecipeHistory_addToRecipeHistory:
  "getRecipeHistory (addToRecipeHistory r st)
   = take 50 (r # filter (\<lambda>x. recipeId x \<noteq> recipeId r) (getRecipeHistory st))"
  by (simp add: addToRecipeHistory_def getRecipeHistory_def Let_def)

text \<open>One call: the new recipe is first, at most 50 entries stay, distinct ids stay distinct.\<close>

lemma addToRecipeHistory_step:
  "\<exists>rest. getRecipeHistory (addToRecipeHistory r st) = r # rest
     \<and> length (r # rest) \<le> 50
     \<and> (distinct (map recipeId (getRecipeHistory st)) \<longrightarrow> distinct (map recipeId (r # rest)))"
proof -
  let ?f = "filter (\<lambda>x. recipeId x \<noteq> recipeId r) (getRecipeHistory st)"
  have eq: "getRecipeHistory (addToRecipeHistory r st) = r # take 49 ?f"
    by (simp add: getRecipeHistory_addToRecipeHistory take_Cons')
  have d: "distinct (map recipeId (r # take 49 ?f))"
    if "distinct (map recipeId (getRecipeHistory st))"
  proof -
    from that have "distinct (map recipeId ?f)" by (simp add: distinct_map_filter)
    then have "distinct (take 49 (map recipeId ?f))" by (rule distinct_take)
    then have "distinct (map recipeId (take 49 ?f))" by (simp add: take_map)
    moreover have "recipeId r \<notin> set (map recipeId (take 49 ?f))"
      using set_take_subset [of 49 ?f] by auto
    ultimately show ?thesis by simp
  qed
  from eq d show ?thesis by simp
qed

lemma addAllToRecipeHistory_distinct:
  "distinct (map recipeId (getRecipeHistory st))
   \<Longrightarrow> distinct (map recipeId (getRecipeHistory (addAllToRecipeHistory rs st)))"
proof (induction rs arbitrary: st)
  case Nil
  then show ?case by (simp add: addAllToRecipeHistory_def)
next
  case (Cons r rs)
  from addToRecipeHistory_step [of r st] Cons.prems
  have "distinct (map recipeId (getRecipeHistory (addToRecipeHistory r st)))" by auto
  from Cons.IH [OF this] show ?case by (simp add: addAllToRecipeHistory_def)
qed

text \<open>
  Claim C4. For every starting history and every sequence of \<open>addToRecipeHistory\<close>
  calls, after each call (the call adding \<open>r\<close>, after any calls \<open>rs\<close>) the recipe just
  added is the first element and the history has at most 50 entries; and the history
  has no two entries with the same id, the starting history having none, as every
  history the program can have stored has none (\<open>reachable_distinct\<close> below).
\<close>

theorem addToRecipeHistory_invariant:
  "\<exists>rest. getRecipeHistory (addAllToRecipeHistory (rs @ [r]) st) = r # rest
     \<and> length (r # rest) \<le> 50
     \<and> (distinct (map recipeId (getRecipeHistory st)) \<longrightarrow> distinct (map recipeId (r # rest)))"
proof -
  let ?mid = "addAllToRecipeHistory rs st"
  have split: "addAllToRecipeHistory (rs @ [r]) st = addToRecipeHistory r ?mid"
    by (simp add: addAllToRecipeHistory_def)
  from addToRecipeHistory_step [of r ?mid] addAllToRecipeHistory_distinct [of st rs]
  show ?thesis unfolding split by blast
qed

theorem addToRecipeHistory_invariant_witness:
  "distinct (map recipeId (getRecipeHistory emptyStorage))
   \<and> getRecipeHistory (addAllToRecipeHistory
        ([exampleRecipe ''a'' ''Plov'', exampleRecipe ''b'' ''Soup''] @ [exampleRecipe ''a'' ''Plov''])
        emptyStorage)
     = [exampleRecipe ''a'' ''Plov'', exampleRecipe ''b'' ''Soup'']"
proof -
  have start: "distinct (map recipeId (getRecipeHistory emptyStorage))"
    by (simp add: getRecipeHistory_def emptyStorage_def)
  have run: "getRecipeHistory (addAllToRecipeHistory
        ([exampleRecipe ''a'' ''Plov'', exampleRecipe ''b'' ''Soup''] @ [exampleRecipe ''a'' ''Plov''])
        emptyStorage)
     = [exampleRecipe ''a'' ''Plov'', exampleRecipe ''b'' ''Soup'']"
    by (simp add: addAllToRecipeHistory_def addToRecipeHistory_def getRecipeHistory_def
        exampleRecipe_def emptyStorage_def)
  from addToRecipeHistory_invariant
         [of "[exampleRecipe ''a'' ''Plov'', exampleRecipe ''b'' ''Soup'']"
             "exampleRecipe ''a'' ''Plov''" emptyStorage] start run
  show ?thesis by simp
qed

lemma list_ex_recipeId:
  "list_ex (\<lambda>x. recipeId x = i) rs \<longleftrightarrow> i \<in> recipeId ` set rs"
  by (auto simp: list_ex_iff)

text \<open>
  Claim C5. \<open>saveRecipe\<close> leaves the store as it is when a recipe with the same id is
  already saved; otherwise the saved collection becomes the recipe, stamped with the
  time of saving, followed by the old collection. A second call with a recipe of the
  same id, at any later time, changes nothing; and when the collection held at most one
  entry with that id before (every collection built by \<open>saveRecipe\<close> and
  \<open>removeSavedRecipe\<close> from the empty store does), it holds exactly one after the two
  calls.
\<close>

theorem saveRecipe_idempotent:
  "(recipeId r \<in> recipeId ` set (getSavedRecipes st) \<longrightarrow> saveRecipe h r st = st)
   \<and> (recipeId r \<notin> recipeId ` set (getSavedRecipes st) \<longrightarrow>
        getSavedRecipes (saveRecipe h r st)
        = r\<lparr>savedAt := Some (isoString h (now h))\<rparr> # getSavedRecipes st)
   \<and> (recipeId r' = recipeId r \<longrightarrow> saveRecipe h' r' (saveRecipe h r st) = saveRecipe h r st)
   \<and> (recipeId r' = recipeId r
        \<and> length (filter (\<lambda>x. recipeId x = recipeId r) (getSavedRecipes st)) \<le> 1 \<longrightarrow>
        length (filter (\<lambda>x. recipeId x = recipeId r)
                  (getSavedRecipes (saveRecipe h' r' (saveRecipe h r st)))) = 1)"
proof -
  let ?in = "recipeId r \<in> recipeId ` set (getSavedRecipes st)"
  have noop: "saveRecipe h r st = st" if ?in
    using that by (simp add: saveRecipe_def Let_def list_ex_recipeId)
  have add: "getSavedRecipes (saveRecipe h r st)
             = r\<lparr>savedAt := Some (isoString h (now h))\<rparr> # getSavedRecipes st" if "\<not> ?in"
    using that by (simp add: saveRecipe_def Let_def list_ex_recipeId getSavedRecipes_def)
  have present: "recipeId r \<in> recipeId ` set (getSavedRecipes (saveRecipe h r st))"
    using noop add by (cases ?in) auto
  have twice: "saveRecipe h' r' (saveRecipe h r st) = saveRecipe h r st"
    if "recipeId r' = recipeId r"
    using that present by (simp add: saveRecipe_def [of h' r'] Let_def list_ex_recipeId)
  have one: "length (filter (\<lambda>x. recipeId x = recipeId r)
                  (getSavedRecipes (saveRecipe h' r' (saveRecipe h r st)))) = 1"
    if same: "recipeId r' = recipeId r"
      and le: "length (filter (\<lambda>x. recipeId x = recipeId r) (getSavedRecipes st)) \<le> 1"
  proof (cases ?in)
    case True
    then have "filter (\<lambda>x. recipeId x = recipeId r) (getSavedRecipes st) \<noteq> []"
      by (auto simp: filter_empty_conv)
    then have "length (filter (\<lambda>x. recipeId x = recipeId r) (getSavedRecipes st)) = 1"
      using le by (cases "filter (\<lambda>x. recipeId x = recipeId r) (getSavedRecipes st)") auto
    then show ?thesis using twice [OF same] noop [OF True] by simp
  next
    case False
    then have "\<forall>x \<in> set (getSavedRecipes st). recipeId x \<noteq> recipeId r"
      by (metis imageI)
    then have "filter (\<lambda>x. recipeId x = recipeId r) (getSavedRecipes st) = []"
      by (simp add: filter_empty_conv)
    then show ?thesis using twice [OF same] add [OF False] by simp
  qed
  from noop add twice one show ?thesis by blast
qed

theorem saveRecipe_idempotent_witness:
  "recipeId (exampleRecipe ''a'' ''Plov'') \<notin> recipeId ` set (getSavedRecipes emptyStorage)
   \<and> length (filter (\<lambda>x. recipeId x = recipeId (exampleRecipe ''a'' ''Plov''))
               (getSavedRecipes emptyStorage)) \<le> 1
   \<and> getSavedRecipes (saveRecipe exampleHost (exampleRecipe ''a'' ''Plov'')
        (saveRecipe exampleHost (exampleRecipe ''a'' ''Plov'') emptyStorage))
     = [(exampleRecipe ''a'' ''Plov'')\<lparr>savedAt := Some ''2024-01-01T10:00:00.000Z''\<rparr>]"
proof -
  let ?r = "exampleRecipe ''a'' ''Plov''"
  have absent: "recipeId ?r \<notin> recipeId ` set (getSavedRecipes emptyStorage)"
    by (simp add: getSavedRecipes_def emptyStorage_def)
  have atmost: "length (filter (\<lambda>x. recipeId x = recipeId ?r) (getSavedRecipes emptyStorage)) \<le> 1"
    by (simp add: getSavedRecipes_def emptyStorage_def)
  have stamp: "isoString exampleHost (now exampleHost) = ''2024-01-01T10:00:00.000Z''"
    by (simp add: exampleHost_def)
  have empty: "getSavedRecipes emptyStorage = []"
    by (simp add: getSavedRecipes_def emptyStorage_def)
  from saveRecipe_idempotent [of ?r emptyStorage exampleHost ?r exampleHost] absent
  have "getSavedRecipes (saveRecipe exampleHost ?r (saveRecipe exampleHost ?r emptyStorage))
        = ?r\<lparr>savedAt := Some (isoString exampleHost (now exampleHost))\<rparr>
          # getSavedRecipes emptyStorage"
    by simp
  with absent atmost stamp empty show ?thesis by simp
qed

text \<open>
  Every store the program can build holds a history and a saved collection without two
  entries of one id.
\<close>

lemma updateUserStats_recipes [simp]:
  "getRecipeHistory (updateUserStats h u st) = getRecipeHistory st"
  "getSavedRecipes (updateUserStats h u st) = getSavedRecipes st"
  by (simp_all add: updateUserStats_def getRecipeHistory_def getSavedRecipes_def Let_def)

lemma reachable_distinct:
  "reachable st \<Longrightarrow>
     distinct (map recipeId (getRecipeHistory st)) \<and> distinct (map recipeId (getSavedRecipes st))"
proof (induction rule: reachable.induct)
  case reachable_empty
  show ?case by (simp add: emptyStorage_def getRecipeHistory_def getSavedRecipes_def)
next
  case (reachable_addToRecipeHistory st r)
  have "getSavedRecipes (addToRecipeHistory r st) = getSavedRecipes st"
    by (simp add: addToRecipeHistory_def getSavedRecipes_def Let_def)
  with reachable_addToRecipeHistory.IH addToRecipeHistory_step [of r st] show ?case by auto
next
  case (reachable_saveRecipe st h r)
  have hist: "getRecipeHistory (saveRecipe h r st) = getRecipeHistory st"
    by (simp add: saveRecipe_def getRecipeHistory_def Let_def)
  have "distinct (map recipeId (getSavedRecipes (saveRecipe h r st)))"
    using reachable_saveRecipe.IH
    by (auto simp: saveRecipe_def Let_def list_ex_recipeId getSavedRecipes_def
        split: option.splits)
  with hist reachable_saveRecipe.IH show ?case by simp
next
  case (reachable_removeSavedRecipe st i)
  have hist: "getRecipeHistory (removeSavedRecipe i st) = getRecipeHistory st"
    by (simp add: removeSavedRecipe_def getRecipeHistory_def Let_def)
  have "getSavedRecipes (removeSavedRecipe i st)
        = filter (\<lambda>r. recipeId r \<noteq> i) (getSavedRecipes st)"
    by (simp add: removeSavedRecipe_def getSavedRecipes_def Let_def)
  with hist reachable_removeSavedRecipe.IH show ?case by (simp add: distinct_map_filter)
next
  case (reachable_updateUserStats st h u)
  then show ?case by simp
next
  case (reachable_incrementStat st h key amount)
  then show ?case by (simp add: incrementStat_def Let_def)
qed

section \<open>Rounding\<close>

text \<open>
  For a magnitude in the range of the normal doubles, \<open>quantum\<close> is the spacing of the
  doubles around it: the significand \<open>a / quantum a\<close> lies between \<open>2 ^ 52\<close> and \<open>2 ^ 53\<close>.
\<close>

lemma quantumUp_bounds:
  "2 ^ 52 * q \<le> a \<Longrightarrow> a < 2 ^ 53 * q * 2 ^ n \<Longrightarrow>
     2 ^ 52 * quantumUp n a q \<le> a \<and> a < 2 ^ 53 * quantumUp n a q"
proof (induction n arbitrary: q)
  case 0
  then show ?case by simp
next
  case (Suc n)
  show ?case
  proof (cases "2 ^ 53 * q \<le> a")
    case True
    have "2 ^ 52 * (2 * q) \<le> a" using True by simp
    moreover have "a < 2 ^ 53 * (2 * q) * 2 ^ n" using Suc.prems(2) by (simp add: algebra_simps)
    ultimately show ?thesis using Suc.IH [of "2 * q"] True by simp
  next
    case False
    with Suc.prems show ?thesis by simp
  qed
qed

lemma quantumDown_bounds:
  "a < 2 ^ 53 * q \<Longrightarrow> 2 ^ 52 * q \<le> a * 2 ^ n \<Longrightarrow>
     2 ^ 52 * quantumDown n a q \<le> a \<and> a < 2 ^ 53 * quantumDown n a q"
proof (induction n arbitrary: q)
  case 0
  then show ?case by simp
next
  case (Suc n)
  show ?case
  proof (cases "a < 2 ^ 52 * q")
    case True
    have "a < 2 ^ 53 * (q / 2)" using True by simp
    moreover have "2 ^ 52 * (q / 2) \<le> a * 2 ^ n" using Suc.prems(2) by (simp add: algebra_simps)
    ultimately show ?thesis using Suc.IH [of "q / 2"] True by simp
  next
    case False
    with Suc.prems show ?thesis by simp
  qed
qed

lemma quantum_bounds:
  assumes "1 / 2 ^ 1022 \<le> a" and "a < 2 ^ 1024"
  shows "2 ^ 52 * quantum a \<le> a \<and> a < 2 ^ 53 * quantum a"
proof (cases "2 ^ 53 \<le> a")
  case True
  have "a < 2 ^ 53 * 1 * 2 ^ 971" using assms(2) by simp
  with True quantumUp_bounds [of 1 a 971] show ?thesis by (simp add: quantum_def)
next
  case False
  have "2 ^ 52 * 1 \<le> a * 2 ^ 1074"
  proof -
    have "(2::rat) ^ 52 = (1 / 2 ^ 1022) * 2 ^ 1074" by simp
    also have "\<dots> \<le> a * 2 ^ 1074" using assms(1) by (intro mult_right_mono) simp_all
    finally show ?thesis by simp
  qed
  with False quantumDown_bounds [of a 1 1074] show ?thesis by (simp add: quantum_def)
qed

text \<open>
  Known sums of doubles: \<^verbatim>\<open>2 ** 53 + 1\<close> is \<^verbatim>\<open>2 ** 53\<close>; the doubles written \<^verbatim>\<open>0.1\<close>,
  \<^verbatim>\<open>0.2\<close> and \<^verbatim>\<open>0.3\<close>; and \<^verbatim>\<open>0.1 + 0.2\<close>, the double after \<^verbatim>\<open>0.3\<close>.
\<close>

lemma roundDouble_examples:
  "roundDouble (2 ^ 53 + 1) = 2 ^ 53"
  "roundDouble (1 / 10) = 3602879701896397 / 2 ^ 55"
  "roundDouble (2 / 10) = 3602879701896397 / 2 ^ 54"
  "roundDouble (3 / 10) = 5404319552844595 / 2 ^ 54"
  "roundDouble (3602879701896397 / 2 ^ 55 + 3602879701896397 / 2 ^ 54)
     = 5404319552844596 / 2 ^ 54"
  by code_simp+

section \<open>The statistics\<close>

text \<open>
  Claim C10, as amended. For every store (with a stored stats record or with none, where
  the default record is read), every key and every amount, \<open>incrementStat(key, amount)\<close>
  changes only the named field and \<open>lastUpdated\<close>: each of the other four statistics
  is as before, \<open>lastUpdated\<close> is the time of the call, and the other collections of the
  store are untouched. The named field becomes the JavaScript value of
  \<open>stats[key] + amount\<close> as it is written to the store: it is increased by exactly
  \<open>amount\<close> when both are numbers and their exact sum is a double.
\<close>

theorem incrementStat_frame:
  "(\<forall>k. k \<noteq> key \<longrightarrow>
         statOf k (getUserStats h' (incrementStat h key (Some amount) st))
         = statOf k (getUserStats h st))
   \<and> statOf key (getUserStats h' (incrementStat h key (Some amount) st))
       = stringified (jsPlus h (statOf key (getUserStats h st)) amount)
   \<and> (\<forall>a b. statOf key (getUserStats h st) = JNum a \<and> amount = JNum b \<and> isDouble (a + b) \<longrightarrow>
         statOf key (getUserStats h' (incrementStat h key (Some amount) st)) = JNum (a + b))
   \<and> lastUpdated (getUserStats h' (incrementStat h key (Some amount) st)) = isoString h (now h)
   \<and> savedRecipesItem (incrementStat h key (Some amount) st) = savedRecipesItem st
   \<and> recipeHistoryItem (incrementStat h key (Some amount) st) = recipeHistoryItem st"
proof -
  let ?after = "getUserStats h' (incrementStat h key (Some amount) st)"
  let ?before = "getUserStats h st"
  have others: "statOf k ?after = statOf k ?before" if "k \<noteq> key" for k
    using that
    by (cases key; cases k)
       (simp_all add: incrementStat_def updateUserStats_def getUserStats_def Let_def
          noUpdates_def orKeep_def)
  have named: "statOf key ?after = stringified (jsPlus h (statOf key ?before) amount)"
    by (cases key)
       (simp_all add: incrementStat_def updateUserStats_def getUserStats_def Let_def
          noUpdates_def orKeep_def)
  have exact: "statOf key ?after = JNum (a + b)"
    if "statOf key ?before = JNum a" "amount = JNum b" "isDouble (a + b)" for a b
    unfolding named using that by (simp add: jsPlus_def isDouble_def Let_def)
  have rest:
    "lastUpdated ?after = isoString h (now h)
     \<and> savedRecipesItem (incrementStat h key (Some amount) st) = savedRecipesItem st
     \<and> recipeHistoryItem (incrementStat h key (Some amount) st) = recipeHistoryItem st"
    by (simp add: incrementStat_def updateUserStats_def getUserStats_def Let_def)
  from others named exact rest show ?thesis by blast
qed

theorem incrementStat_frame_witness:
  "timeSaved (getUserStats exampleHost emptyStorage) = JNum 180
   \<and> isDouble (180 + 40)
   \<and> timeSaved (getUserStats exampleHost
        (incrementStat exampleHost TimeSaved (Some (JNum 40)) emptyStorage)) = JNum 220
   \<and> moneySaved (getUserStats exampleHost
        (incrementStat exampleHost TimeSaved (Some (JNum 40)) emptyStorage)) = JNum 2450"
proof -
  have before: "getUserStats exampleHost emptyStorage = defaultStats exampleHost"
    by (simp add: getUserStats_def emptyStorage_def)
  have old: "statOf TimeSaved (getUserStats exampleHost emptyStorage) = JNum 180"
    by (simp add: before defaultStats_def)
  have dbl: "isDouble (180 + 40)" by code_simp
  have ne: "MoneySaved \<noteq> TimeSaved" by simp
  from incrementStat_frame [of TimeSaved exampleHost exampleHost "JNum 40" emptyStorage]
    old dbl ne
  have "statOf TimeSaved (getUserStats exampleHost
            (incrementStat exampleHost TimeSaved (Some (JNum 40)) emptyStorage))
          = JNum (180 + 40)"
    and "statOf MoneySaved (getUserStats exampleHost
            (incrementStat exampleHost TimeSaved (Some (JNum 40)) emptyStorage))
          = statOf MoneySaved (getUserStats exampleHost emptyStorage)"
    by blast+
  with dbl show ?thesis by (simp add: before defaultStats_def)
qed

text \<open>
  The claim as written fails on the first call after installation: the default
  \<open>wastePrevented\<close> is 12.5, and with the amount \<open>2 ^ 53\<close> the exact sum
  9007199254741004.5 is not a double; the field becomes 9007199254741004.
\<close>

theorem incrementStat_counterexample:
  "wastePrevented (getUserStats exampleHost emptyStorage) = JNum (25 / 2)
   \<and> wastePrevented (getUserStats exampleHost
        (incrementStat exampleHost WastePrevented (Some (JNum 9007199254740992)) emptyStorage))
     = JNum 9007199254741004
   \<and> (25 / 2 + 9007199254740992 :: rat) = 9007199254741004 + 1 / 2"
  by code_simp

text \<open>
  A smaller amount: with the double written \<^verbatim>\<open>0.1\<close>, \<open>timeSaved\<close> goes from 180 to the
  double written \<^verbatim>\<open>180.1\<close>, which is not the exact sum.
\<close>

lemma incrementStat_tenth:
  "timeSaved (getUserStats exampleHost
     (incrementStat exampleHost TimeSaved (Some (JNum (3602879701896397 / 2 ^ 55))) emptyStorage))
   = JNum (6336705413198643 / 2 ^ 45)
   \<and> roundDouble (1801 / 10) = 6336705413198643 / 2 ^ 45
   \<and> (180 + 3602879701896397 / 2 ^ 55 :: rat) \<noteq> 6336705413198643 / 2 ^ 45"
  by code_simp

text \<open>
  An amount that is a string is concatenated: with \<^verbatim>\<open>recipe.cookTime\<close> read from an answer
  that says \<^verbatim>\<open>"cookTime": "30 min"\<close>, \<open>timeSaved\<close> becomes the string \<^verbatim>\<open>"18030 min"\<close>. The
  omitted amount is 1.
\<close>

lemma incrementStat_string_amount:
  "timeSaved (getUserStats exampleHost
     (incrementStat exampleHost TimeSaved (Some (JStr ''30 min'')) emptyStorage))
   = JStr ''18030 min''"
  by code_simp

lemma incrementStat_default:
  "incrementStat h key None st = incrementStat h key (Some (JNum 1)) st"
  by (simp add: incrementStat_def)

section \<open>The recommendation request builder\<close>

text \<open>
  In a fixed-offset time zone, a date at most three days (of 24 hours) after the current
  instant is at most three midnights after the current day.
\<close>

lemma fixedOffsetMidnight_days:
  assumes "e - t \<le> 3 * msPerDay"
  shows "ceilDays (fixedOffsetMidnight off e - fixedOffsetMidnight off t) \<le> 3"
proof -
  have D: "0 < msPerDay" by (simp add: msPerDay_def)
  have mid: "fixedOffsetMidnight off x = msPerDay * ((x + off) div msPerDay) - off" for x
    unfolding fixedOffsetMidnight_def by (simp add: minus_mod_eq_mult_div algebra_simps)
  from assms have "e + off \<le> (t + off) + 3 * msPerDay" by simp
  then have "(e + off) div msPerDay \<le> ((t + off) + 3 * msPerDay) div msPerDay"
    using D by (intro zdiv_mono1) simp_all
  also have "\<dots> = (t + off) div msPerDay + 3" using D by simp
  finally have "(e + off) div msPerDay - (t + off) div msPerDay \<le> 3" by simp
  then have "msPerDay * ((e + off) div msPerDay - (t + off) div msPerDay) \<le> msPerDay * 3"
    using D by (intro mult_left_mono) simp_all
  then show ?thesis
    by (simp add: ceilDays_le mid algebra_simps)
qed

text \<open>
  Claim C2, as amended. The names flagged in the request are exactly the names of the
  candidates whose expiry date parses and lies at most three times 24 hours after the
  current instant (the day count of \<open>generateRecipeWithGemini\<close> is taken from the raw
  instants, not from midnights, and its threshold is 3). In a time zone with a fixed
  offset every such candidate is classified \<open>critical\<close>.
\<close>

theorem expiringProducts_flagged:
  "set (expiringProducts h products)
     = productName ` {p \<in> set products.
          \<exists>e. parseDate h (expiryDate p) = Some e \<and> e - now h \<le> 3 * msPerDay}
   \<and> ((\<forall>t. startOfLocalDay h t = fixedOffsetMidnight off t) \<longrightarrow>
        (\<forall>p \<in> set products. \<forall>e.
            parseDate h (expiryDate p) = Some e \<and> e - now h \<le> 3 * msPerDay \<longrightarrow>
            getExpiryStatus h (expiryDate p) = critical))"
proof -
  have sel: "set (expiringProducts h products)
     = productName ` {p \<in> set products.
          \<exists>e. parseDate h (expiryDate p) = Some e \<and> e - now h \<le> 3 * msPerDay}"
    unfolding expiringProducts_def
    by (auto simp: ceilDays_le split: option.splits)
  have crit: "getExpiryStatus h (expiryDate p) = critical"
    if tz: "\<forall>t. startOfLocalDay h t = fixedOffsetMidnight off t"
      and p: "parseDate h (expiryDate p) = Some e" and le: "e - now h \<le> 3 * msPerDay"
    for p e
    using fixedOffsetMidnight_days [OF le, of off] p tz
    by (simp add: getExpiryStatus_def setHoursMidnight_def Let_def)
  from sel crit show ?thesis by blast
qed

theorem expiringProducts_flagged_witness:
  "startOfLocalDay exampleHost = fixedOffsetMidnight 0
   \<and> parseDate exampleHost ''2024-01-03T08:00:00.000Z'' = Some 1704268800000
   \<and> 1704268800000 - now exampleHost \<le> 3 * msPerDay
   \<and> set (expiringProducts exampleHost
        [exampleProduct ''Kefir'' ''2024-01-06T08:00:00.000Z'',
         exampleProduct ''Milk'' ''2024-01-03T08:00:00.000Z'']) = {JStr ''Milk''}
   \<and> getExpiryStatus exampleHost ''2024-01-03T08:00:00.000Z'' = critical"
proof -
  let ?ps = "[exampleProduct ''Kefir'' ''2024-01-06T08:00:00.000Z'',
              exampleProduct ''Milk'' ''2024-01-03T08:00:00.000Z'']"
  have tz: "\<forall>t. startOfLocalDay exampleHost t = fixedOffsetMidnight 0 t"
    by (simp add: exampleHost_def)
  have p: "parseDate exampleHost (expiryDate (exampleProduct ''Milk'' ''2024-01-03T08:00:00.000Z''))
           = Some 1704268800000"
    by (simp add: exampleHost_def exampleProduct_def)
  have le: "1704268800000 - now exampleHost \<le> 3 * msPerDay"
    by (simp add: exampleHost_def msPerDay_def)
  have mem: "exampleProduct ''Milk'' ''2024-01-03T08:00:00.000Z'' \<in> set ?ps" by simp
  have names: "set (expiringProducts exampleHost ?ps) = {JStr ''Milk''}"
    by (simp add: expiringProducts_def exampleProduct_def exampleHost_eval)
  from expiringProducts_flagged [of exampleHost ?ps 0] tz mem p le
  have "getExpiryStatus exampleHost
          (expiryDate (exampleProduct ''Milk'' ''2024-01-03T08:00:00.000Z'')) = critical"
    by blast
  then have "getExpiryStatus exampleHost ''2024-01-03T08:00:00.000Z'' = critical"
    by (simp add: exampleProduct_def)
  with names le show ?thesis by (simp add: exampleHost_def)
qed

text \<open>
  The claim as written fails on a candidate due in five days: its tier is \<open>warning\<close>,
  not \<open>fresh\<close>, and its name is not flagged.
\<close>

theorem expiringProducts_counterexample:
  "getExpiryStatus exampleHost ''2024-01-06T08:00:00.000Z'' = warning
   \<and> expiringProducts exampleHost [exampleProduct ''Kefir'' ''2024-01-06T08:00:00.000Z''] = []"
  by (simp add: expiringProducts_def exampleProduct_def exampleHost_eval)

text \<open>
  Claim C6. The claim asks that a category string outside the enumeration be coerced to
  \<open>other\<close>. The code coerces only a missing or falsy category. On the answer
  \<^verbatim>\<open>{"products": [{"name": "Shrimp", "category": "seafood"}]}\<close> the table of shelf lives
  has no entry, the expiry date becomes invalid, and \<open>analyzeImageWithGemini\<close> throws a
  \<^verbatim>\<open>RangeError\<close> instead of returning a product of category \<open>other\<close>.
\<close>

theorem analyzeImageWithGemini_unrecognized_category:
  "analyzeImageWithGemini exampleHost
     (answering (JObj [(''products'',
        JArr [JObj [(''name'', JStr ''Shrimp''), (''category'', JStr ''seafood'')]])]))
     ''image'' ''key''
   = Inl RangeError"
  by (simp add: analyzeImageWithGemini_def answering_def scannedProduct_def
      getDefaultExpiryDays_def addDaysToDate_def Let_def)

text \<open>
  The same in general: the table has entries for the ten names only, so a product is
  built from a string category (or from none) only with a category of the enumeration,
  and a non-empty string outside the enumeration ends the call.
\<close>

lemma getDefaultExpiryDays_Some:
  "getDefaultExpiryDays s = Some n \<Longrightarrow> isProductCategory (JStr s)"
  by (auto simp: getDefaultExpiryDays_def allCategories_def split: if_splits)

lemma scannedProduct_category:
  assumes "scannedProduct h k p = Inr item"
    and "getProp p ''category'' = None \<or> (\<exists>s. getProp p ''category'' = Some (JStr s))"
  shows "isProductCategory (category item)"
proof -
  let ?cat = "orElse (getProp p ''category'') (JStr ''other'')"
  from assms(2) have "\<exists>s. ?cat = JStr s" by auto
  then obtain s where s: "?cat = JStr s" ..
  from assms(1) have cat: "category item = ?cat"
    by (auto simp: scannedProduct_def Let_def split: if_splits option.splits)
  from assms(1) s obtain n where "getDefaultExpiryDays s = Some n"
    by (auto simp: scannedProduct_def Let_def addDaysToDate_def split: if_splits option.splits)
  then show ?thesis using cat s getDefaultExpiryDays_Some by simp
qed

lemma scannedProduct_unrecognized:
  assumes "getProp p ''category'' = Some (JStr s)" and "s \<noteq> []"
    and "\<not> isProductCategory (JStr s)" and "p \<noteq> JNull"
  shows "scannedProduct h k p = Inl RangeError"
proof -
  from assms(3) have "getDefaultExpiryDays s = None"
    using getDefaultExpiryDays_Some by (cases "getDefaultExpiryDays s") auto
  with assms(1,2,4) show ?thesis
    by (simp add: scannedProduct_def Let_def addDaysToDate_def)
qed

text \<open>
  Claim C7. The claim asks that a recipe whose answer omits \<open>servings\<close> take the servings
  the request asked for. The request below asks for 2 servings, the answer
  \<^verbatim>\<open>{"title": "Soup", "ingredients": [], "instructions": []}\<close> names none, and the recipe
  returned has 4.
\<close>

theorem generateRecipeWithGemini_ignores_requested_servings:
  "promptServings (recipePrompt exampleHost [exampleProduct ''Milk'' ''2024-01-03T08:00:00.000Z'']
      (Some \<lparr>prefServings = Some 2, prefMaxTime = None, prefDifficulty = None\<rparr>)) = 2
   \<and> map_sum id servings
       (generateRecipeWithGemini exampleHost
          (answering (JObj [(''title'', JStr ''Soup''), (''ingredients'', JArr []),
                            (''instructions'', JArr [])]))
          [exampleProduct ''Milk'' ''2024-01-03T08:00:00.000Z''] ''key''
          (Some \<lparr>prefServings = Some 2, prefMaxTime = None, prefDifficulty = None\<rparr>))
     = Inr (JNum 4)"
  by (simp add: generateRecipeWithGemini_def recipePrompt_def truthyNumber_def answering_def)

text \<open>
  What the code does on such an answer, for every request: the other defaults are as the
  claim says, and \<open>servings\<close> is 4 whatever the preferences are.
\<close>

lemma generateRecipeWithGemini_defaults:
  assumes "apiKey \<noteq> []"
    and "gemini (recipePrompt h products preferences) = Inr parsed"
    and "getProp parsed ''servings'' = None" and "getProp parsed ''cookTime'' = None"
    and "getProp parsed ''difficulty'' = None" and "getProp parsed ''usesExpiringProducts'' = None"
  shows "\<exists>r. generateRecipeWithGemini h gemini products apiKey preferences = Inr r
           \<and> cookTime r = JNum 30 \<and> servings r = JNum 4 \<and> difficulty r = JStr ''medium''
           \<and> usesExpiringProducts r = JArr (expiringProducts h products)
           \<and> (getProp parsed ''ingredients'' = None \<longrightarrow> ingredients r = JArr [])
           \<and> (getProp parsed ''instructions'' = None \<longrightarrow> instructions r = JArr [])"
  using assms by (simp add: generateRecipeWithGemini_def)

text \<open>
  Claim C8, as amended. Whenever the guest-menu answer omits \<open>perPersonCost\<close>, the result's
  \<open>perPersonCost\<close> is the midpoint of the budget's band of cost per person (875, 1450 or
  2400); when the answer omits \<open>totalCost\<close> as well and the guest count is not 0, this
  is the result's \<open>totalCost\<close> divided by the guest count.
\<close>

theorem generateGuestMenuWithGemini_perPersonCost:
  assumes "generateGuestMenuWithGemini h gemini guestCount budget city apiKey = Inr res"
    and "gemini \<lparr>promptGuests = guestCount, promptCity = city,
                 promptRange = budgetRanges budget,
                 promptTotalBudget = totalBudget budget guestCount\<rparr> = Inr parsed"
    and "getProp parsed ''perPersonCost'' = None"
  shows "perPersonCost res = JNum (targetCostPerPerson budget)
       \<and> targetCostPerPerson budget
           = (case budget of economy \<Rightarrow> 875 | standard \<Rightarrow> 1450 | premium \<Rightarrow> 2400)
       \<and> (getProp parsed ''totalCost'' = None \<and> guestCount \<noteq> 0 \<longrightarrow>
            totalCost res = JNum (totalBudget budget guestCount)
            \<and> targetCostPerPerson budget = totalBudget budget guestCount / guestCount)"
proof -
  from assms have "perPersonCost res = JNum (targetCostPerPerson budget)"
    by (auto simp: generateGuestMenuWithGemini_def split: if_splits sum.splits)
  moreover have "targetCostPerPerson budget
           = (case budget of economy \<Rightarrow> 875 | standard \<Rightarrow> 1450 | premium \<Rightarrow> 2400)"
    by (cases budget) (simp_all add: targetCostPerPerson_def)
  moreover have "totalCost res = JNum (totalBudget budget guestCount)"
    if "getProp parsed ''totalCost'' = None"
    using assms that
    by (auto simp: generateGuestMenuWithGemini_def split: if_splits sum.splits)
  moreover have "targetCostPerPerson budget = totalBudget budget guestCount / guestCount"
    if "guestCount \<noteq> 0"
    using that by (simp add: totalBudget_def)
  ultimately show ?thesis by blast
qed

theorem generateGuestMenuWithGemini_perPersonCost_witness:
  "map_sum id perPersonCost
     (generateGuestMenuWithGemini exampleHost (answering (JObj []))
         4 economy ''Bishkek'' ''key'') = Inr (JNum 875)
   \<and> map_sum id totalCost
     (generateGuestMenuWithGemini exampleHost (answering (JObj []))
         4 economy ''Bishkek'' ''key'') = Inr (JNum 3500)"
proof -
  obtain res where res: "generateGuestMenuWithGemini exampleHost (answering (JObj []))
         4 economy ''Bishkek'' ''key'' = Inr res"
    by (simp add: generateGuestMenuWithGemini_def answering_def processRecipes_def)
  have ans: "answering (JObj []) \<lparr>promptGuests = 4, promptCity = ''Bishkek'',
                 promptRange = budgetRanges economy,
                 promptTotalBudget = totalBudget economy 4\<rparr> = Inr (JObj [])"
    by (simp add: answering_def)
  have omit: "getProp (JObj []) ''perPersonCost'' = None" "getProp (JObj []) ''totalCost'' = None"
    by simp_all
  from generateGuestMenuWithGemini_perPersonCost [OF res ans omit(1)] omit(2)
  have "perPersonCost res = JNum 875" "totalCost res = JNum (totalBudget economy 4)"
    by simp_all
  then show ?thesis by (simp add: res totalBudget_def targetCostPerPerson_def)
qed

text \<open>
  The claim as written fails when the answer gives \<open>totalCost\<close> but not \<open>perPersonCost\<close>:
  for 4 guests on the economy budget and a total of 5000, the result's \<open>perPersonCost\<close> is
  875, not 5000 / 4 = 1250.
\<close>

theorem generateGuestMenuWithGemini_counterexample:
  "map_sum id perPersonCost
     (generateGuestMenuWithGemini exampleHost (answering (JObj [(''totalCost'', JNum 5000)]))
         4 economy ''Bishkek'' ''key'') = Inr (JNum 875)
   \<and> map_sum id totalCost
     (generateGuestMenuWithGemini exampleHost (answering (JObj [(''totalCost'', JNum 5000)]))
         4 economy ''Bishkek'' ''key'') = Inr (JNum 5000)
   \<and> (5000 :: rat) / 4 = 1250"
  by (simp add: generateGuestMenuWithGemini_def answering_def processRecipes_def
      targetCostPerPerson_def)

end
